theory Spec2Isabelle
  imports Main "HOL-Library.AList"
begin

section \<open>Errors and run-time faults\<close>

text \<open>
  A Go \<^verbatim>\<open>error\<close> value is a message, possibly wrapped (\<^verbatim>\<open>errors.Wrap\<close>);
  \<^verbatim>\<open>SeparatorCount n\<close> is the formatted error of \<^verbatim>\<open>buildSecretRefs\<close>
  ("expected one / separator for implicit variable/key name, have n").
  A \<^verbatim>\<open>panic\<close> is a run-time fault: it is not a returned error.
\<close>

datatype error = Errorf string | Wrap string error | SeparatorCount nat

datatype panic = NilDereference | KeyNotString

datatype failure = Panicked panic | Failed error

section \<open>The untyped document tree\<close>

text \<open>
  The values \<^verbatim>\<open>markDuplicateValues\<close> walks by reflection, one constructor per
  \<^verbatim>\<open>reflect.Kind\<close> it can meet:
  \<^item> \<open>YStr\<close>: kind String;
  \<^item> \<open>YInt\<close>, \<open>YBool\<close>, \<open>YNull\<close>: the other scalars (a nil interface has kind
    Invalid); no case of the switch matches them, and floats behave like \<open>YInt\<close>;
  \<^item> \<open>YSlice\<close>: kind Slice or Array: a \<^verbatim>\<open>[]interface{}\<close>, or a \<^verbatim>\<open>yaml.MapSlice\<close>
    when its elements are \<open>YMapItem\<close>s;
  \<^item> \<open>YMapItem k v\<close>: kind Struct: a \<^verbatim>\<open>yaml.MapItem{Key, Value}\<close>, field 0 and field 1;
  \<^item> \<open>YMap\<close>: kind Map: a Go map, as the list of its entries in the order
    \<^verbatim>\<open>MapKeys()\<close> returns them (an order the Go run time does not fix).
  Pointers and interfaces are followed silently (\<^verbatim>\<open>value.Elem()\<close>).
\<close>

datatype yaml =
    YStr string
  | YInt int
  | YBool bool
  | YNull
  | YSlice "yaml list"
  | YMapItem yaml yaml
  | YMap "(yaml \<times> yaml) list"

section \<open>The manifest data model\<close>

text \<open>
  The structs of \<^verbatim>\<open>manifest.go\<close>, field by field; a field name shared by several
  structs is prefixed with the struct. A pointer field is an \<open>option\<close> (\<open>None\<close> is
  nil); the elements of a slice of pointers are taken to be non-nil. A
  \<^verbatim>\<open>map[string]interface{}\<close> that the functions below only copy is the list of its
  entries. \<^verbatim>\<open>Variable.Options\<close> is left out: its type is built from types of another
  module, and no function below reads it.

  The declarations of \<^verbatim>\<open>Update\<close>, \<^verbatim>\<open>Job\<close>, \<^verbatim>\<open>JobProperties\<close> and
  \<^verbatim>\<open>InstanceGroup\<close> are not part of the sources at hand: their records carry the
  fields that the functions of \<^verbatim>\<open>manifest.go\<close> read or write.
\<close>

record feature =
  ConvergeVariables :: bool
  RandomizeAzPlacement :: "bool option"
  UseDNSAddresses :: "bool option"
  UseTmpfsJobConfig :: "bool option"

record stemcell =
  Stemcell_Alias :: string
  Stemcell_OS :: string
  Stemcell_Version :: string
  Stemcell_Name :: string

record release_stemcell =
  ReleaseStemcell_OS :: string
  ReleaseStemcell_Version :: string

record release =
  Release_Name :: string
  Release_Version :: string
  Release_URL :: string
  Release_SHA1 :: string
  Release_Stemcell :: "release_stemcell option"

record update =
  CanaryWatchTime :: string
  UpdateWatchTime :: string
  Serial :: "bool option"

record job_properties =
  IsAddon :: bool
  PropertyData :: "(string \<times> yaml) list"

record job =
  Job_Name :: string
  Job_Release :: string
  Job_Properties :: job_properties
  Job_Consumes :: "(string \<times> yaml) list"
  Job_Provides :: "(string \<times> yaml) list"

record addon_job =
  AddOnJob_Name :: string
  AddOnJob_Release :: string
  AddOnJob_Properties :: job_properties
  AddOnJob_Consumes :: "(string \<times> yaml) list"
  AddOnJob_Provides :: "(string \<times> yaml) list"

record addon_placement_rules =
  Rules_Stemcell :: "string list"
  Rules_Deployments :: "string list"
  Rules_Jobs :: "(string \<times> string) list"
  Rules_InstanceGroup :: "string list"
  Rules_Networks :: "string list"
  Rules_Teams :: "string list"
  Rules_Lifecycle :: string

record addon =
  AddOn_Name :: string
  AddOn_Jobs :: "addon_job list"
  Include :: "addon_placement_rules option"
  Exclude :: "addon_placement_rules option"

record variable =
  Variable_Name :: string
  Variable_Type :: string

record instance_group =
  IG_Name :: string
  IG_Stemcell :: string
  IG_Jobs :: "job list"
  IG_Update :: "update option"

record manifest =
  DirectorUUID :: string
  InstanceGroups :: "instance_group list"
  Features :: "feature option"
  Tags :: "(string \<times> string) list"
  Releases :: "release list"
  Stemcells :: "stemcell list"
  AddOns :: "addon list"
  Properties :: "(string \<times> yaml) list"
  Variables :: "variable list"
  Update :: "update option"
  AddOnsApplied :: bool

definition BoshDNSAddOnName :: string where
  "BoshDNSAddOnName = ''bosh-dns''"

section \<open>PropagateGlobalUpdateBlockToIGs\<close>

text \<open>
  The body of the loop for one instance group. \<open>g\<close> is \<^verbatim>\<open>m.Update\<close>. Reading a
  field of \<^verbatim>\<open>m.Update\<close> when it is nil is the fault \<open>NilDereference\<close>; the three
  tests run in the order of the source, each on the block as the previous one left it.
  The source assigns pointers (an instance group without a block shares the global one);
  the model keeps the values, which is what the pointers hold when the function returns:
  a write through a block shared with \<^verbatim>\<open>m.Update\<close> copies a field onto itself.
\<close>

definition fillCanaryWatchTime :: "update option \<Rightarrow> update \<Rightarrow> panic + update" where
  "fillCanaryWatchTime g u =
     (if CanaryWatchTime u = ''''
      then (case g of None \<Rightarrow> Inl NilDereference
            | Some gu \<Rightarrow> Inr (u\<lparr>CanaryWatchTime := CanaryWatchTime gu\<rparr>))
      else Inr u)"

definition fillUpdateWatchTime :: "update option \<Rightarrow> update \<Rightarrow> panic + update" where
  "fillUpdateWatchTime g u =
     (if UpdateWatchTime u = ''''
      then (case g of None \<Rightarrow> Inl NilDereference
            | Some gu \<Rightarrow> Inr (u\<lparr>UpdateWatchTime := UpdateWatchTime gu\<rparr>))
      else Inr u)"

definition fillSerial :: "update option \<Rightarrow> update \<Rightarrow> panic + update" where
  "fillSerial g u =
     (if Serial u = None
      then (case g of None \<Rightarrow> Inl NilDereference
            | Some gu \<Rightarrow> Inr (u\<lparr>Serial := Serial gu\<rparr>))
      else Inr u)"

definition propagateToIG :: "update option \<Rightarrow> instance_group \<Rightarrow> panic + instance_group" where
  "propagateToIG g ig =
     (case IG_Update ig of
        None \<Rightarrow> Inr (ig\<lparr>IG_Update := g\<rparr>)
      | Some u \<Rightarrow>
          (case fillCanaryWatchTime g u of
             Inl p \<Rightarrow> Inl p
           | Inr u1 \<Rightarrow>
               (case fillUpdateWatchTime g u1 of
                  Inl p \<Rightarrow> Inl p
                | Inr u2 \<Rightarrow>
                    (case fillSerial g u2 of
                       Inl p \<Rightarrow> Inl p
                     | Inr u3 \<Rightarrow> Inr (ig\<lparr>IG_Update := Some u3\<rparr>)))))"

fun propagateToIGs :: "update option \<Rightarrow> instance_group list \<Rightarrow> panic + instance_group list" where
  "propagateToIGs g [] = Inr []"
| "propagateToIGs g (ig # igs) =
     (case propagateToIG g ig of
        Inl p \<Rightarrow> Inl p
      | Inr ig' \<Rightarrow>
          (case propagateToIGs g igs of
             Inl p \<Rightarrow> Inl p
           | Inr igs' \<Rightarrow> Inr (ig' # igs')))"

definition PropagateGlobalUpdateBlockToIGs :: "manifest \<Rightarrow> panic + manifest" where
  "PropagateGlobalUpdateBlockToIGs m =
     (case propagateToIGs (Update m) (InstanceGroups m) of
        Inl p \<Rightarrow> Inl p
      | Inr igs \<Rightarrow> Inr (m\<lparr>InstanceGroups := igs\<rparr>))"


section \<open>ApplyAddons\<close>

text \<open>
  \<^verbatim>\<open>addOnPlacementMatch\<close> is a method of the manifest whose body is not part of the
  sources at hand; \<^verbatim>\<open>ApplyAddons\<close> is modelled for an arbitrary one. It receives the
  manifest as it is when called (with the jobs injected so far), the placement type, the
  instance group and the rules (\<open>None\<close> for nil), and returns a match or an error.
\<close>

type_synonym placement_match =
  "manifest \<Rightarrow> string \<Rightarrow> instance_group \<Rightarrow> addon_placement_rules option \<Rightarrow> error + bool"

definition addedJob :: "addon_job \<Rightarrow> job" where
  "addedJob addonJob =
     \<lparr>Job_Name = AddOnJob_Name addonJob,
      Job_Release = AddOnJob_Release addonJob,
      Job_Properties = (AddOnJob_Properties addonJob)\<lparr>IsAddon := True\<rparr>,
      Job_Consumes = AddOnJob_Consumes addonJob,
      Job_Provides = AddOnJob_Provides addonJob\<rparr>"

text \<open>The innermost loop: \<^verbatim>\<open>ig.Jobs = append(ig.Jobs, addedJob)\<close> for every addon job.\<close>

fun appendAddonJobs :: "job list \<Rightarrow> addon_job list \<Rightarrow> job list" where
  "appendAddonJobs jobs [] = jobs"
| "appendAddonJobs jobs (addonJob # rest) = appendAddonJobs (jobs @ [addedJob addonJob]) rest"

text \<open>
  The body of the loop over the instance groups, for the instance group at index \<open>i\<close>.
  The result is the manifest as the body leaves it and the error it returns, if any.
\<close>

definition applyAddonToIG :: "placement_match \<Rightarrow> addon \<Rightarrow> nat \<Rightarrow> manifest \<Rightarrow> manifest \<times> error option" where
  "applyAddonToIG pm addon i m =
     (let ig = InstanceGroups m ! i in
      case pm m ''inclusion'' ig (Include addon) of
        Inl err \<Rightarrow> (m, Some (Wrap ''failed to process include placement matches'' err))
      | Inr include \<Rightarrow>
          (case pm m ''exclusion'' ig (Exclude addon) of
             Inl err \<Rightarrow> (m, Some (Wrap ''failed to process exclude placement matches'' err))
           | Inr exclude \<Rightarrow>
               if exclude \<or> \<not> include then (m, None)
               else (m\<lparr>InstanceGroups :=
                        (InstanceGroups m)[i := ig\<lparr>IG_Jobs := appendAddonJobs (IG_Jobs ig) (AddOn_Jobs addon)\<rparr>]\<rparr>,
                     None)))"

fun applyAddonToIGs :: "placement_match \<Rightarrow> addon \<Rightarrow> nat list \<Rightarrow> manifest \<Rightarrow> manifest \<times> error option" where
  "applyAddonToIGs pm addon [] m = (m, None)"
| "applyAddonToIGs pm addon (i # rest) m =
     (case applyAddonToIG pm addon i m of
        (m', Some err) \<Rightarrow> (m', Some err)
      | (m', None) \<Rightarrow> applyAddonToIGs pm addon rest m')"

fun applyAddonsLoop :: "placement_match \<Rightarrow> addon list \<Rightarrow> manifest \<Rightarrow> manifest \<times> error option" where
  "applyAddonsLoop pm [] m = (m, None)"
| "applyAddonsLoop pm (addon # rest) m =
     (if AddOn_Name addon = BoshDNSAddOnName then applyAddonsLoop pm rest m
      else (case applyAddonToIGs pm addon [0..<length (InstanceGroups m)] m of
              (m', Some err) \<Rightarrow> (m', Some err)
            | (m', None) \<Rightarrow> applyAddonsLoop pm rest m'))"

definition ApplyAddons :: "placement_match \<Rightarrow> manifest \<Rightarrow> manifest \<times> error option" where
  "ApplyAddons pm m =
     (if AddOnsApplied m then (m, None)
      else (case applyAddonsLoop pm (AddOns m) m of
              (m', Some err) \<Rightarrow> (m', Some err)
            | (m', None) \<Rightarrow> (m'\<lparr>AddOnsApplied := True\<rparr>, None)))"


section \<open>Duplicate-value anchoring: markDuplicateValues\<close>

text \<open>
  \<^verbatim>\<open>map[string]duplicateYamlValue\<close> is kept as the list of its entries in the order
  they were inserted; an entry is only ever inserted under a hash that is not yet a key,
  so \<open>map_of\<close> is the lookup.
\<close>

record duplicateYamlValue =
  Hash :: string
  YamlKeyMarker :: string

type_synonym duplicateValues = "(string \<times> duplicateYamlValue) list"

text \<open>
  \<open>sha1hex\<close> is \<^verbatim>\<open>hex.EncodeToString\<close> of the SHA-1 digest (Go's standard library);
  the walk is modelled for an arbitrary one. The result is the tree as the walk leaves it
  (the source mutates it in place) and the table of hashes seen.

  \<^item> Slice: every element in turn.
  \<^item> Struct (\<open>YMapItem\<close>): a string value is considered when it is non-empty and longer
    than 64 bytes; any other value is walked. \<^verbatim>\<open>valueKeyField.Interface().(string)\<close>
    panics when the key is not a string (\<open>KeyNotString\<close>).
  \<^item> Map (\<open>markMapKeys\<close>): the loop runs over the snapshot \<^verbatim>\<open>value.MapKeys()\<close> (the
    first list) and reads and writes the map itself (the second list, \<open>cur\<close>):
    \<^verbatim>\<open>MapIndex\<close> is \<open>map_of cur\<close>, \<^verbatim>\<open>SetMapIndex(k, reflect.Value{})\<close> is
    \<open>AList.delete\<close>, \<^verbatim>\<open>SetMapIndex(k, v)\<close> is \<open>AList.update\<close>. A string value is
    considered when it is non-empty: this branch has no test on the length. A value that
    is not a string is the nested slice or map the entry had from the start (only strings
    are ever stored by the loop), walked in place.
\<close>

fun markDuplicateValues ::
    "(string \<Rightarrow> string) \<Rightarrow> yaml \<Rightarrow> duplicateValues \<Rightarrow> panic + (yaml \<times> duplicateValues)"
  and markElements ::
    "(string \<Rightarrow> string) \<Rightarrow> yaml list \<Rightarrow> duplicateValues \<Rightarrow> panic + (yaml list \<times> duplicateValues)"
  and markMapKeys ::
    "(string \<Rightarrow> string) \<Rightarrow> (yaml \<times> yaml) list \<Rightarrow> (yaml \<times> yaml) list \<Rightarrow> duplicateValues \<Rightarrow>
       panic + ((yaml \<times> yaml) list \<times> duplicateValues)"
where
  "markDuplicateValues sha1hex (YSlice xs) dups =
     (case markElements sha1hex xs dups of
        Inl p \<Rightarrow> Inl p
      | Inr (xs', dups') \<Rightarrow> Inr (YSlice xs', dups'))"
| "markDuplicateValues sha1hex (YMapItem k v) dups =
     (case v of
        YStr s \<Rightarrow>
          if s \<noteq> '''' \<and> length s > 64
          then (let sha1 = sha1hex s in
                case map_of dups sha1 of
                  Some foundValue \<Rightarrow> Inr (YMapItem k (YStr (''*'' @ sha1)), dups)
                | None \<Rightarrow>
                    (case k of
                       YStr key \<Rightarrow>
                         Inr (YMapItem (YStr (key @ ''='' @ sha1)) (YStr s),
                              dups @ [(sha1, \<lparr>Hash = sha1, YamlKeyMarker = key\<rparr>)])
                     | _ \<Rightarrow> Inl KeyNotString))
          else Inr (YMapItem k v, dups)
      | _ \<Rightarrow>
          (case markDuplicateValues sha1hex v dups of
             Inl p \<Rightarrow> Inl p
           | Inr (v', dups') \<Rightarrow> Inr (YMapItem k v', dups')))"
| "markDuplicateValues sha1hex (YMap entries) dups =
     (case markMapKeys sha1hex entries entries dups of
        Inl p \<Rightarrow> Inl p
      | Inr (entries', dups') \<Rightarrow> Inr (YMap entries', dups'))"
| "markDuplicateValues sha1hex (YStr s) dups = Inr (YStr s, dups)"
| "markDuplicateValues sha1hex (YInt i) dups = Inr (YInt i, dups)"
| "markDuplicateValues sha1hex (YBool b) dups = Inr (YBool b, dups)"
| "markDuplicateValues sha1hex YNull dups = Inr (YNull, dups)"
| "markElements sha1hex [] dups = Inr ([], dups)"
| "markElements sha1hex (x # xs) dups =
     (case markDuplicateValues sha1hex x dups of
        Inl p \<Rightarrow> Inl p
      | Inr (x', dups1) \<Rightarrow>
          (case markElements sha1hex xs dups1 of
             Inl p \<Rightarrow> Inl p
           | Inr (xs', dups2) \<Rightarrow> Inr (x' # xs', dups2)))"
| "markMapKeys sha1hex [] cur dups = Inr (cur, dups)"
| "markMapKeys sha1hex ((k, v) # rest) cur dups =
     (case map_of cur k of
        Some (YStr s) \<Rightarrow>
          if s \<noteq> ''''
          then (let sha1 = sha1hex s in
                case map_of dups sha1 of
                  Some foundValue \<Rightarrow>
                    markMapKeys sha1hex rest (AList.update k (YStr (''*'' @ sha1)) cur) dups
                | None \<Rightarrow>
                    (case k of
                       YStr key \<Rightarrow>
                         markMapKeys sha1hex rest
                           (AList.update (YStr (key @ ''='' @ sha1)) (YStr s) (AList.delete k cur))
                           (dups @ [(sha1, \<lparr>Hash = sha1, YamlKeyMarker = key\<rparr>)])
                     | _ \<Rightarrow> Inl KeyNotString))
          else markMapKeys sha1hex rest cur dups
      | Some other \<Rightarrow>
          (case markDuplicateValues sha1hex v dups of
             Inl p \<Rightarrow> Inl p
           | Inr (v', dups') \<Rightarrow> markMapKeys sha1hex rest (AList.update k v' cur) dups')
      | None \<Rightarrow> markMapKeys sha1hex rest cur dups)"


section \<open>Marshal\<close>

text \<open>
  \<^verbatim>\<open>bytes.ReplaceAll\<close>: the non-overlapping occurrences of \<open>old\<close>, left to right.
  With an empty \<open>old\<close> Go inserts \<open>new\<close> before every character and at the end;
  \<^verbatim>\<open>Marshal\<close> never passes an empty \<open>old\<close>.
\<close>

fun hasPrefix :: "string \<Rightarrow> string \<Rightarrow> bool" where
  "hasPrefix s [] = True"
| "hasPrefix [] (c # prefix) = False"
| "hasPrefix (x # s) (c # prefix) = (x = c \<and> hasPrefix s prefix)"

fun replaceAll :: "string \<Rightarrow> string \<Rightarrow> string \<Rightarrow> string" where
  "replaceAll s [] new = new @ concat (map (\<lambda>c. c # new) s)"
| "replaceAll [] (c # old) new = []"
| "replaceAll (x # s) (c # old) new =
     (if hasPrefix (x # s) (c # old)
      then new @ replaceAll (drop (length old) s) (c # old) new
      else x # replaceAll s (c # old) new)"

text \<open>
  What \<^verbatim>\<open>LoadYAML\<close>, \<^verbatim>\<open>Marshal\<close>, \<^verbatim>\<open>ImplicitVariables\<close> and \<^verbatim>\<open>buildSecretRefs\<close> take from
  outside \<^verbatim>\<open>manifest.go\<close> and \<^verbatim>\<open>resolver.go\<close>; the functions are modelled for
  arbitrary ones:
  \<^item> \<open>yamlMarshal\<close>, \<open>yamlUnmarshal\<close>: \<^verbatim>\<open>sigs.k8s.io/yaml\<close>, from and into the
    manifest (the decoder with \<^verbatim>\<open>UseNumber\<close>);
  \<^item> \<open>goyamlUnmarshal\<close>, \<open>goyamlMarshal\<close>: \<^verbatim>\<open>gopkg.in/yaml.v2\<close>, into and from the
    document tree;
  \<^item> \<open>sha1Hex\<close>: the hexadecimal SHA-1 digest;
  \<^item> \<open>rangeOrder\<close>: the order in which \<^verbatim>\<open>for _, v := range duplicateValues\<close> visits
    the values of the table (Go does not fix the order of a range over a map);
  \<^item> \<open>unicodeLetter\<close>: the class \<^verbatim>\<open>\pL\<close> of \<^verbatim>\<open>regexp\<close> outside ASCII;
  \<^item> \<open>SecretVariableName\<close>: \<^verbatim>\<open>names.SecretVariableName\<close>.
\<close>

record externals =
  yamlMarshal :: "manifest \<Rightarrow> error + string"
  yamlUnmarshal :: "string \<Rightarrow> error + manifest"
  goyamlUnmarshal :: "string \<Rightarrow> error + yaml"
  goyamlMarshal :: "yaml \<Rightarrow> error + string"
  sha1Hex :: "string \<Rightarrow> string"
  rangeOrder :: "duplicateValues \<Rightarrow> duplicateYamlValue list"
  unicodeLetter :: "char \<Rightarrow> bool"
  SecretVariableName :: "string \<Rightarrow> string"


text \<open>
  \<^verbatim>\<open>LoadYAML\<close>; the message of the wrapped error ends with the data.
\<close>

definition LoadYAML :: "externals \<Rightarrow> string \<Rightarrow> error + manifest" where
  "LoadYAML ext data =
     (case yamlUnmarshal ext data of
        Inl err \<Rightarrow> Inl (Wrap (''failed to unmarshal BOSH deployment manifest '' @ data) err)
      | Inr m \<Rightarrow> Inr m)"

text \<open>The body of the loop that turns the markers of one table entry into an anchor and aliases.\<close>

definition removeQuotes :: "duplicateYamlValue \<Rightarrow> string \<Rightarrow> string" where
  "removeQuotes v marshalledManifest =
     replaceAll
       (replaceAll marshalledManifest ([CHR 0x27] @ ''*'' @ Hash v @ [CHR 0x27]) (''*'' @ Hash v))
       (YamlKeyMarker v @ ''='' @ Hash v @ '': '')
       (YamlKeyMarker v @ '': &'' @ Hash v @ '' '')"

fun removeAllQuotes :: "duplicateYamlValue list \<Rightarrow> string \<Rightarrow> string" where
  "removeAllQuotes [] marshalledManifest = marshalledManifest"
| "removeAllQuotes (v # rest) marshalledManifest = removeAllQuotes rest (removeQuotes v marshalledManifest)"

definition Marshal :: "externals \<Rightarrow> manifest \<Rightarrow> failure + string" where
  "Marshal ext m =
     (case yamlMarshal ext m of
        Inl err \<Rightarrow> Inl (Failed err)
      | Inr marshalledManifest \<Rightarrow>
          (case goyamlUnmarshal ext marshalledManifest of
             Inl err \<Rightarrow> Inl (Failed err)
           | Inr manifestInterfaceMap \<Rightarrow>
               (case markDuplicateValues (sha1Hex ext) manifestInterfaceMap [] of
                  Inl p \<Rightarrow> Inl (Panicked p)
                | Inr (marked, duplicateValues) \<Rightarrow>
                    (case goyamlMarshal ext marked of
                       Inl err \<Rightarrow> Inl (Failed err)
                     | Inr text \<Rightarrow> Inr (removeAllQuotes (rangeOrder ext duplicateValues) text)))))"


text \<open>\<^verbatim>\<open>SHA1\<close>: the hexadecimal digest of the bytes \<^verbatim>\<open>Marshal\<close> returns.\<close>

definition SHA1 :: "externals \<Rightarrow> manifest \<Rightarrow> failure + string" where
  "SHA1 ext m =
     (case Marshal ext m of
        Inl (Failed err) \<Rightarrow> Inl (Failed (Wrap ''YAML marshalling manifest failed.'' err))
      | Inl (Panicked p) \<Rightarrow> Inl (Panicked p)
      | Inr manifestBytes \<Rightarrow> Inr (sha1Hex ext manifestBytes))"


text \<open>
  The round trip of the specification: \<^verbatim>\<open>Marshal\<close> returns bytes and \<^verbatim>\<open>LoadYAML\<close>
  of these bytes returns the manifest.
\<close>

definition roundTrips :: "externals \<Rightarrow> manifest \<Rightarrow> bool" where
  "roundTrips ext m \<longleftrightarrow>
     (case Marshal ext m of
        Inl f \<Rightarrow> False
      | Inr bytes \<Rightarrow> LoadYAML ext bytes = Inr m)"


section \<open>ImplicitVariables\<close>

text \<open>
  The regular expression \<^verbatim>\<open>\(\((!?[-/\.\w\pL]+)\)\)\<close>. \<open>isWordChar\<close> is \<^verbatim>\<open>\w\<close>
  (digits, ASCII letters, underscore); the ASCII letters of \<^verbatim>\<open>\pL\<close> are among them.
  \<open>matchVarAt pL s\<close> is the match that starts at the first character of \<open>s\<close>: the
  submatch and the text after the match. The class holds neither \<^verbatim>\<open>!\<close> nor a
  parenthesis, so the greedy run of class characters is the only candidate.
  \<open>findAllVars\<close> is \<^verbatim>\<open>FindAllStringSubmatch(rawManifest, -1)\<close>, reduced to the
  submatch: the leftmost match, then the matches of the text after it.
\<close>

definition isWordChar :: "char \<Rightarrow> bool" where
  "isWordChar c \<longleftrightarrow>
     (let n = (of_char c :: nat) in
      (48 \<le> n \<and> n \<le> 57) \<or> (65 \<le> n \<and> n \<le> 90) \<or> n = 95 \<or> (97 \<le> n \<and> n \<le> 122))"

definition varChar :: "(char \<Rightarrow> bool) \<Rightarrow> char \<Rightarrow> bool" where
  "varChar pL c \<longleftrightarrow>
     c = CHR ''-'' \<or> c = CHR ''/'' \<or> c = CHR ''.'' \<or> isWordChar c \<or>
     (128 \<le> (of_char c :: nat) \<and> pL c)"

definition matchVarAt :: "(char \<Rightarrow> bool) \<Rightarrow> string \<Rightarrow> (string \<times> string) option" where
  "matchVarAt pL s =
     (if take 2 s = ''(('' then
        (let r = drop 2 s;
             bang = (if take 1 r = ''!'' then ''!'' else '''');
             r1 = drop (length bang) r;
             name = takeWhile (varChar pL) r1;
             r2 = dropWhile (varChar pL) r1
         in if name \<noteq> '''' \<and> take 2 r2 = ''))'' then Some (bang @ name, drop 2 r2) else None)
      else None)"

lemma matchVarAt_shorter: "matchVarAt pL s = Some (v, rest) \<Longrightarrow> length rest < length s"
proof -
  assume a: "matchVarAt pL s = Some (v, rest)"
  define r where "r = drop 2 s"
  define bang where "bang = (if take 1 r = ''!'' then ''!'' else '''')"
  define r1 where "r1 = drop (length bang) r"
  from a have p: "take 2 s = ''((''"
    by (simp add: matchVarAt_def split: if_splits)
  with a have "rest = drop 2 (dropWhile (varChar pL) r1)"
    by (simp add: matchVarAt_def Let_def r_def bang_def r1_def split: if_splits)
  then have "length rest \<le> length (dropWhile (varChar pL) r1)" by simp
  also have "\<dots> \<le> length r1" by (rule length_dropWhile_le)
  also have "\<dots> \<le> length r" by (simp add: r1_def)
  also have "\<dots> < length s"
  proof -
    from p have "s \<noteq> []" by auto
    then show ?thesis by (cases s) (simp_all add: r_def)
  qed
  finally show ?thesis .
qed

function findAllVars :: "(char \<Rightarrow> bool) \<Rightarrow> string \<Rightarrow> string list" where
  "findAllVars pL s =
     (if s = '''' then []
      else (case matchVarAt pL s of
              Some (v, rest) \<Rightarrow> v # findAllVars pL rest
            | None \<Rightarrow> findAllVars pL (tl s)))"
  by pat_completeness auto
termination
  by (relation "measure (\<lambda>(pL, s). length s)") (auto simp: matchVarAt_shorter)


text \<open>
  \<open>fieldName\<close> is \<^verbatim>\<open>fieldRegexp.FindString\<close> for \<^verbatim>\<open>[^\.]+\<close>: the first maximal
  run of characters other than a dot, or the empty string. \<open>varMap\<close> is the Go map as
  the list of its entries; the order of the names returned is the order of a range over
  a Go map, which the run time does not fix: only the set of the names is meaningful.
\<close>

definition SlashedVariable :: "string \<Rightarrow> bool" where
  "SlashedVariable name \<longleftrightarrow> CHR ''/'' \<in> set name"

definition fieldName :: "string \<Rightarrow> string" where
  "fieldName v = takeWhile (\<lambda>c. c \<noteq> CHR ''.'') (dropWhile (\<lambda>c. c = CHR ''.'') v)"

definition mainName :: "string \<Rightarrow> string" where
  "mainName v = (if \<not> SlashedVariable v then fieldName v else v)"

fun collectVariables :: "string list \<Rightarrow> (string \<times> bool) list \<Rightarrow> (string \<times> bool) list" where
  "collectVariables [] varMap = varMap"
| "collectVariables (v # rest) varMap = collectVariables rest (AList.update (mainName v) True varMap)"

fun removeExplicit :: "variable list \<Rightarrow> (string \<times> bool) list \<Rightarrow> (string \<times> bool) list" where
  "removeExplicit [] varMap = varMap"
| "removeExplicit (v # rest) varMap = removeExplicit rest (AList.update (Variable_Name v) False varMap)"

definition ImplicitVariables :: "externals \<Rightarrow> manifest \<Rightarrow> failure + string list" where
  "ImplicitVariables ext m =
     (case Marshal ext m of
        Inl f \<Rightarrow> Inl f
      | Inr rawManifest \<Rightarrow>
          (let varMap = collectVariables (findAllVars (unicodeLetter ext) rawManifest) [];
               varMap' = removeExplicit (Variables m) varMap
           in Inr (map fst (filter snd varMap'))))"


section \<open>buildSecretRefs\<close>


record secretInfo =
  key :: string
  variable :: string

type_synonym secretRefs = "string \<rightharpoonup> secretInfo list"

definition add :: "secretRefs \<Rightarrow> string \<Rightarrow> string \<Rightarrow> string \<Rightarrow> secretRefs" where
  "add s var secName k =
     s(secName \<mapsto> (case s secName of None \<Rightarrow> [] | Some si \<Rightarrow> si) @ [\<lparr>key = k, variable = var\<rparr>])"

fun split :: "char \<Rightarrow> string \<Rightarrow> string list" where
  "split sep [] = [[]]"
| "split sep (c # cs) =
     (if c = sep then [] # split sep cs
      else (case split sep cs of
              [] \<Rightarrow> [[c]]
            | p # ps \<Rightarrow> (c # p) # ps))"



section \<open>Example values\<close>

text \<open>Concrete update blocks, instance groups and manifests for the examples below.\<close>

definition exampleGlobalUpdate :: update where
  "exampleGlobalUpdate =
     \<lparr>CanaryWatchTime = ''1000-2000'', UpdateWatchTime = ''3000'', Serial = Some True\<rparr>"

definition exampleSerialOnly :: update where
  "exampleSerialOnly = \<lparr>CanaryWatchTime = '''', UpdateWatchTime = '''', Serial = Some False\<rparr>"

definition exampleIG :: "string \<Rightarrow> update option \<Rightarrow> instance_group" where
  "exampleIG name u = \<lparr>IG_Name = name, IG_Stemcell = ''default'', IG_Jobs = [], IG_Update = u\<rparr>"

definition exampleManifest :: "update option \<Rightarrow> instance_group list \<Rightarrow> manifest" where
  "exampleManifest g igs =
     \<lparr>DirectorUUID = '''', InstanceGroups = igs, Features = None, Tags = [], Releases = [],
      Stemcells = [], AddOns = [], Properties = [], Variables = [], Update = g,
      AddOnsApplied = False\<rparr>"

text \<open>
  A placement matcher for the examples: nil rules include every instance group and exclude
  none; other rules match on the name of the instance group.
\<close>

definition examplePlacementMatch :: placement_match where
  "examplePlacementMatch m placementType ig rules =
     (case rules of
        None \<Rightarrow> Inr (placementType = ''inclusion'')
      | Some r \<Rightarrow> Inr (IG_Name ig \<in> set (Rules_InstanceGroup r)))"

definition exampleAddonJob :: addon_job where
  "exampleAddonJob =
     \<lparr>AddOnJob_Name = ''agent'', AddOnJob_Release = ''logging'',
      AddOnJob_Properties = \<lparr>IsAddon = False, PropertyData = []\<rparr>,
      AddOnJob_Consumes = [], AddOnJob_Provides = []\<rparr>"

definition exampleAddon :: "string \<Rightarrow> addon" where
  "exampleAddon name =
     \<lparr>AddOn_Name = name, AddOn_Jobs = [exampleAddonJob], Include = None, Exclude = None\<rparr>"

definition exampleAddonManifest :: "string \<Rightarrow> manifest" where
  "exampleAddonManifest name =
     (exampleManifest None [exampleIG ''web'' None])\<lparr>AddOns := [exampleAddon name]\<rparr>"

text \<open>
  An environment for the examples: whatever the manifest, its encoders print the given
  document; no character outside ASCII is a letter; the secret of a variable is named
  by the prefix "var-".
\<close>

definition printingExternals :: "string \<Rightarrow> externals" where
  "printingExternals text =
     \<lparr>yamlMarshal = (\<lambda>m. Inr ''''),
      yamlUnmarshal = (\<lambda>s. Inl (Errorf ''no decoder'')),
      goyamlUnmarshal = (\<lambda>s. Inr (YSlice [])),
      goyamlMarshal = (\<lambda>t. Inr text),
      sha1Hex = (\<lambda>s. s),
      rangeOrder = map snd,
      unicodeLetter = (\<lambda>c. False),
      SecretVariableName = (\<lambda>name. ''var-'' @ name)\<rparr>"

definition exampleVariablesManifest :: "variable list \<Rightarrow> manifest" where
  "exampleVariablesManifest vars = (exampleManifest None [])\<lparr>Variables := vars\<rparr>"

text \<open>
  The SHA-1 digests of 65 times the letter a and of 65 times the letter b, a mapping key
  that quotes the first digest (\<^verbatim>\<open>x'*<digest a>'\<close>), and the table entries of the two strings.
\<close>

definition exampleHashA :: string where
  "exampleHashA = ''11655326c708d70319be2610e8a57d9a5b959d3b''"

definition exampleHashB :: string where
  "exampleHashB = ''af8615a17a61c9bc8fec267292a3abde6a482f0b''"

definition exampleQuotedKey :: string where
  "exampleQuotedKey = ''x'' @ [CHR 0x27] @ ''*'' @ exampleHashA @ [CHR 0x27]"

definition exampleEntryA :: duplicateYamlValue where
  "exampleEntryA = \<lparr>Hash = exampleHashA, YamlKeyMarker = ''y''\<rparr>"

definition exampleEntryB :: duplicateYamlValue where
  "exampleEntryB = \<lparr>Hash = exampleHashB, YamlKeyMarker = exampleQuotedKey\<rparr>"

text \<open>
  The document tree of a manifest whose properties are the two long strings, the first
  under the key that quotes the digest of the second.
\<close>

definition exampleTree :: yaml where
  "exampleTree =
     YSlice
       [YMapItem (YStr ''director_uuid'') (YStr ''''),
        YMapItem (YStr ''properties'')
          (YSlice
             [YMapItem (YStr exampleQuotedKey) (YStr (replicate 65 (CHR ''b''))),
              YMapItem (YStr ''y'') (YStr (replicate 65 (CHR ''a'')))])]"

text \<open>
  A manifest with these two properties, and an environment for it: the first pass prints
  the manifest as \<open>exampleFirstPassText\<close>, which parses to \<open>exampleTree\<close>; the second
  pass prints the marked tree as \<open>exampleSecondPassText\<close>, mapping keys unquoted; the hash
  function has the two digests. The order of the range over the table is the parameter.
\<close>

definition examplePropertiesManifest :: manifest where
  "examplePropertiesManifest =
     (exampleManifest None [])
       \<lparr>Properties :=
          [(exampleQuotedKey, YStr (replicate 65 (CHR ''b''))),
           (''y'', YStr (replicate 65 (CHR ''a'')))]\<rparr>"

definition exampleFirstPassText :: string where
  "exampleFirstPassText =
     ''director_uuid: '' @ [CHR 0x22, CHR 0x22, CHR 0x0A] @
     ''properties:'' @ [CHR 0x0A] @
     ''  '' @ exampleQuotedKey @ '': '' @ replicate 65 (CHR ''b'') @ [CHR 0x0A] @
     ''  y: '' @ replicate 65 (CHR ''a'') @ [CHR 0x0A]"

definition exampleSecondPassText :: string where
  "exampleSecondPassText =
     ''director_uuid: '' @ [CHR 0x22, CHR 0x22, CHR 0x0A] @
     ''properties:'' @ [CHR 0x0A] @
     ''  '' @ exampleQuotedKey @ ''='' @ exampleHashB @ '': '' @ replicate 65 (CHR ''b'') @ [CHR 0x0A] @
     ''  y='' @ exampleHashA @ '': '' @ replicate 65 (CHR ''a'') @ [CHR 0x0A]"

definition exampleSha1 :: "string \<Rightarrow> string" where
  "exampleSha1 s =
     (if s = replicate 65 (CHR ''a'') then exampleHashA
      else if s = replicate 65 (CHR ''b'') then exampleHashB
      else '''')"

definition exampleMarkedTree :: yaml where
  "exampleMarkedTree =
     YSlice
       [YMapItem (YStr ''director_uuid'') (YStr ''''),
        YMapItem (YStr ''properties'')
          (YSlice
             [YMapItem (YStr (exampleQuotedKey @ ''='' @ exampleHashB))
                (YStr (replicate 65 (CHR ''b''))),
              YMapItem (YStr (''y='' @ exampleHashA)) (YStr (replicate 65 (CHR ''a'')))])]"

definition exampleCodec :: "(duplicateValues \<Rightarrow> duplicateYamlValue list) \<Rightarrow> externals" where
  "exampleCodec order =
     \<lparr>yamlMarshal =
        (\<lambda>m. if m = examplePropertiesManifest then Inr exampleFirstPassText
              else Inl (Errorf ''not the example manifest'')),
      yamlUnmarshal = (\<lambda>s. Inl (Errorf ''no decoder'')),
      goyamlUnmarshal =
        (\<lambda>s. if s = exampleFirstPassText then Inr exampleTree
              else Inl (Errorf ''not the example document'')),
      goyamlMarshal =
        (\<lambda>t. if t = exampleMarkedTree then Inr exampleSecondPassText
              else Inl (Errorf ''not the example tree'')),
      sha1Hex = exampleSha1,
      rangeOrder = order,
      unicodeLetter = (\<lambda>c. False),
      SecretVariableName = (\<lambda>name. ''var-'' @ name)\<rparr>"

text \<open>
  The document tree of a manifest that has properties only. Two manifests: in the first the
  property "b" is the 41-byte string made of an asterisk and the digest of the property
  "a"; in the second "b" repeats the long string of "a". An environment for them: the
  document of the first pass is abbreviated to a name of the manifest and parses to its
  tree; the second pass prints the alias marker in single quotes; the decoder resolves
  the alias of the final text to the anchored string.
\<close>

definition propertiesTree :: "(string \<times> yaml) list \<Rightarrow> yaml" where
  "propertiesTree props =
     YSlice
       [YMapItem (YStr ''director_uuid'') (YStr ''''),
        YMapItem (YStr ''properties'') (YSlice (map (\<lambda>(k, v). YMapItem (YStr k) v) props))]"

definition examplePropertyManifest :: "(string \<times> yaml) list \<Rightarrow> manifest" where
  "examplePropertyManifest props = (exampleManifest None [])\<lparr>Properties := props\<rparr>"

definition exampleLongString :: string where
  "exampleLongString = replicate 65 (CHR ''a'')"

definition exampleLookalike :: manifest where
  "exampleLookalike =
     examplePropertyManifest
       [(''a'', YStr exampleLongString), (''b'', YStr (''*'' @ exampleHashA))]"

definition exampleDuplicate :: manifest where
  "exampleDuplicate =
     examplePropertyManifest [(''a'', YStr exampleLongString), (''b'', YStr exampleLongString)]"

definition exampleAnchoredText :: string where
  "exampleAnchoredText =
     ''director_uuid: '' @ [CHR 0x22, CHR 0x22, CHR 0x0A] @
     ''properties:'' @ [CHR 0x0A] @
     ''  a: &'' @ exampleHashA @ '' '' @ exampleLongString @ [CHR 0x0A] @
     ''  b: *'' @ exampleHashA @ [CHR 0x0A]"

definition exampleAnchorMarkedTree :: yaml where
  "exampleAnchorMarkedTree =
     propertiesTree
       [(''a='' @ exampleHashA, YStr exampleLongString), (''b'', YStr (''*'' @ exampleHashA))]"

definition exampleQuotedAliasText :: string where
  "exampleQuotedAliasText =
     ''director_uuid: '' @ [CHR 0x22, CHR 0x22, CHR 0x0A] @
     ''properties:'' @ [CHR 0x0A] @
     ''  a='' @ exampleHashA @ '': '' @ exampleLongString @ [CHR 0x0A] @
     ''  b: '' @ [CHR 0x27] @ ''*'' @ exampleHashA @ [CHR 0x27, CHR 0x0A]"

definition exampleAnchoringCodec :: externals where
  "exampleAnchoringCodec =
     \<lparr>yamlMarshal =
        (\<lambda>m. if m = exampleLookalike then Inr ''lookalike''
              else if m = exampleDuplicate then Inr ''duplicate''
              else Inl (Errorf ''not an example manifest'')),
      yamlUnmarshal =
        (\<lambda>s. if s = exampleAnchoredText then Inr exampleDuplicate
              else Inl (Errorf ''not the example document'')),
      goyamlUnmarshal =
        (\<lambda>s. if s = ''lookalike''
              then Inr (propertiesTree
                     [(''a'', YStr exampleLongString), (''b'', YStr (''*'' @ exampleHashA))])
              else if s = ''duplicate''
              then Inr (propertiesTree
                     [(''a'', YStr exampleLongString), (''b'', YStr exampleLongString)])
              else Inl (Errorf ''not an example document'')),
      goyamlMarshal =
        (\<lambda>t. if t = exampleAnchorMarkedTree then Inr exampleQuotedAliasText
              else Inl (Errorf ''not the example tree'')),
      sha1Hex = exampleSha1,
      rangeOrder = map snd,
      unicodeLetter = (\<lambda>c. False),
      SecretVariableName = (\<lambda>name. ''var-'' @ name)\<rparr>"

text \<open>A tree of ordered mappings and sequences only: no Go map anywhere.\<close>

fun mapSliceTree :: "yaml \<Rightarrow> bool" where
  "mapSliceTree (YSlice xs) = list_all mapSliceTree xs"
| "mapSliceTree (YMapItem k v) = mapSliceTree v"
| "mapSliceTree (YMap entries) = False"
| "mapSliceTree (YStr s) = True"
| "mapSliceTree (YInt i) = True"
| "mapSliceTree (YBool b) = True"
| "mapSliceTree YNull = True"

text \<open>
  A tree of ordered mappings and sequences only (no Go map) in which no mapping item holds
  a string longer than 64 bytes.
\<close>

fun shortMapSliceTree :: "yaml \<Rightarrow> bool" where
  "shortMapSliceTree (YSlice xs) = list_all shortMapSliceTree xs"
| "shortMapSliceTree (YMapItem k v) =
     (case v of YStr s \<Rightarrow> length s \<le> 64 | _ \<Rightarrow> shortMapSliceTree v)"
| "shortMapSliceTree (YMap entries) = False"
| "shortMapSliceTree (YStr s) = True"
| "shortMapSliceTree (YInt i) = True"
| "shortMapSliceTree (YBool b) = True"
| "shortMapSliceTree YNull = True"

section \<open>Update-policy propagation\<close>

lemma fillCanaryWatchTime_result:
  "fillCanaryWatchTime g u = Inr u' \<Longrightarrow>
     UpdateWatchTime u' = UpdateWatchTime u \<and> Serial u' = Serial u \<and>
     (CanaryWatchTime u \<noteq> '''' \<longrightarrow> CanaryWatchTime u' = CanaryWatchTime u) \<and>
     (CanaryWatchTime u = '''' \<longrightarrow> (\<exists>gu. g = Some gu \<and> CanaryWatchTime u' = CanaryWatchTime gu))"
  by (auto simp: fillCanaryWatchTime_def split: if_splits option.splits)

lemma fillUpdateWatchTime_result:
  "fillUpdateWatchTime g u = Inr u' \<Longrightarrow>
     CanaryWatchTime u' = CanaryWatchTime u \<and> Serial u' = Serial u \<and>
     (UpdateWatchTime u \<noteq> '''' \<longrightarrow> UpdateWatchTime u' = UpdateWatchTime u) \<and>
     (UpdateWatchTime u = '''' \<longrightarrow> (\<exists>gu. g = Some gu \<and> UpdateWatchTime u' = UpdateWatchTime gu))"
  by (auto simp: fillUpdateWatchTime_def split: if_splits option.splits)

lemma fillSerial_result:
  "fillSerial g u = Inr u' \<Longrightarrow>
     CanaryWatchTime u' = CanaryWatchTime u \<and> UpdateWatchTime u' = UpdateWatchTime u \<and>
     (Serial u \<noteq> None \<longrightarrow> Serial u' = Serial u) \<and>
     (Serial u = None \<longrightarrow> (\<exists>gu. g = Some gu \<and> Serial u' = Serial gu))"
  by (auto simp: fillSerial_def split: if_splits option.splits)

lemma propagateToIG_nil:
  "IG_Update ig = None \<Longrightarrow> propagateToIG g ig = Inr (ig\<lparr>IG_Update := g\<rparr>)"
  by (simp add: propagateToIG_def)

lemma propagateToIG_steps:
  assumes "IG_Update ig = Some u" and "propagateToIG g ig = Inr ig'"
  shows "\<exists>u1 u2 u3. fillCanaryWatchTime g u = Inr u1 \<and> fillUpdateWatchTime g u1 = Inr u2 \<and>
           fillSerial g u2 = Inr u3 \<and> ig' = ig\<lparr>IG_Update := Some u3\<rparr>"
  using assms by (simp add: propagateToIG_def split: sum.splits)

lemma propagateToIG_partial:
  assumes "IG_Update ig = Some u" and "propagateToIG g ig = Inr ig'"
  shows "\<exists>u'. ig' = ig\<lparr>IG_Update := Some u'\<rparr> \<and>
           (CanaryWatchTime u \<noteq> '''' \<longrightarrow> CanaryWatchTime u' = CanaryWatchTime u) \<and>
           (CanaryWatchTime u = '''' \<longrightarrow> (\<exists>gu. g = Some gu \<and> CanaryWatchTime u' = CanaryWatchTime gu)) \<and>
           (UpdateWatchTime u \<noteq> '''' \<longrightarrow> UpdateWatchTime u' = UpdateWatchTime u) \<and>
           (UpdateWatchTime u = '''' \<longrightarrow> (\<exists>gu. g = Some gu \<and> UpdateWatchTime u' = UpdateWatchTime gu)) \<and>
           (Serial u \<noteq> None \<longrightarrow> Serial u' = Serial u) \<and>
           (Serial u = None \<longrightarrow> (\<exists>gu. g = Some gu \<and> Serial u' = Serial gu))"
proof -
  from propagateToIG_steps [OF assms] obtain u1 u2 u3 where
    s1: "fillCanaryWatchTime g u = Inr u1" and
    s2: "fillUpdateWatchTime g u1 = Inr u2" and
    s3: "fillSerial g u2 = Inr u3" and
    r: "ig' = ig\<lparr>IG_Update := Some u3\<rparr>"
    by (elim exE conjE)
  note c1 = fillCanaryWatchTime_result [OF s1] and c2 = fillUpdateWatchTime_result [OF s2]
    and c3 = fillSerial_result [OF s3]
  have k: "CanaryWatchTime u3 = CanaryWatchTime u1" using c2 c3 by simp
  have w: "UpdateWatchTime u3 = UpdateWatchTime u2" "UpdateWatchTime u1 = UpdateWatchTime u"
    using c1 c3 by simp_all
  have s: "Serial u2 = Serial u" using c1 c2 by simp
  have a: "CanaryWatchTime u \<noteq> '''' \<longrightarrow> CanaryWatchTime u3 = CanaryWatchTime u"
    using c1 k by simp
  have b: "CanaryWatchTime u = '''' \<longrightarrow> (\<exists>gu. g = Some gu \<and> CanaryWatchTime u3 = CanaryWatchTime gu)"
    using c1 k by simp
  have c: "UpdateWatchTime u \<noteq> '''' \<longrightarrow> UpdateWatchTime u3 = UpdateWatchTime u"
    using c2 w by simp
  have d: "UpdateWatchTime u = '''' \<longrightarrow> (\<exists>gu. g = Some gu \<and> UpdateWatchTime u3 = UpdateWatchTime gu)"
    using c2 w by simp
  have e: "Serial u \<noteq> None \<longrightarrow> Serial u3 = Serial u"
    using c3 s by simp
  have f: "Serial u = None \<longrightarrow> (\<exists>gu. g = Some gu \<and> Serial u3 = Serial gu)"
    using c3 s by simp
  show ?thesis
    by (rule exI [of _ u3]) (intro conjI r a b c d e f)
qed

lemma propagateToIG_global:
  "\<exists>ig'. propagateToIG (Some gu) ig = Inr ig'"
  by (simp add: propagateToIG_def fillCanaryWatchTime_def fillUpdateWatchTime_def fillSerial_def
      split: option.splits)

lemma propagateToIGs_global:
  "\<exists>igs'. propagateToIGs (Some gu) igs = Inr igs'"
proof (induction igs)
  case Nil
  show ?case by simp
next
  case (Cons ig igs)
  from propagateToIG_global obtain ig' where "propagateToIG (Some gu) ig = Inr ig'" by blast
  moreover from Cons obtain igs' where "propagateToIGs (Some gu) igs = Inr igs'" by blast
  ultimately show ?case by simp
qed

lemma propagateToIGs_Cons:
  "propagateToIGs g (ig # igs) = Inr r \<Longrightarrow>
     \<exists>ig' rest. propagateToIG g ig = Inr ig' \<and> propagateToIGs g igs = Inr rest \<and> r = ig' # rest"
  by (simp split: sum.splits)

lemma propagateToIGs_nth:
  "propagateToIGs g igs = Inr igs' \<Longrightarrow>
     length igs' = length igs \<and> (\<forall>i < length igs. propagateToIG g (igs ! i) = Inr (igs' ! i))"
proof (induction igs arbitrary: igs')
  case Nil
  then show ?case by simp
next
  case (Cons ig igs)
  from propagateToIGs_Cons [OF Cons.prems] obtain ig' rest where
    h: "propagateToIG g ig = Inr ig'" and t: "propagateToIGs g igs = Inr rest"
    and e: "igs' = ig' # rest"
    by (elim exE conjE)
  note ih = Cons.IH [OF t]
  have "length igs' = length (ig # igs)" using ih e by simp
  moreover have "\<forall>i < length (ig # igs). propagateToIG g ((ig # igs) ! i) = Inr (igs' ! i)"
  proof (intro allI impI)
    fix i assume "i < length (ig # igs)"
    then show "propagateToIG g ((ig # igs) ! i) = Inr (igs' ! i)"
      using ih h e by (cases i) simp_all
  qed
  ultimately show ?case by (intro conjI)
qed

text \<open>
  Claim C7. Update-policy propagation is a field-level merge. Whenever
  \<^verbatim>\<open>PropagateGlobalUpdateBlockToIGs\<close> returns (and it always returns when the manifest
  has a global update block), the manifest differs from the one it was given in the
  update blocks of its instance groups only, and for every instance group:
  \<^item> one without an update block has the global block, whole;
  \<^item> one with an update block keeps every sub-field that was set (a non-empty canary
    watch time, a non-empty update watch time, a non-nil serial flag), gets each unset
    sub-field from the global block, and is otherwise unchanged.
\<close>

theorem propagate_field_level_merge:
  "(Update m \<noteq> None \<longrightarrow> (\<exists>r. PropagateGlobalUpdateBlockToIGs m = Inr r)) \<and>
   (PropagateGlobalUpdateBlockToIGs m = Inr m' \<longrightarrow>
      m' = m\<lparr>InstanceGroups := InstanceGroups m'\<rparr> \<and>
      length (InstanceGroups m') = length (InstanceGroups m) \<and>
      (\<forall>i < length (InstanceGroups m).
         (IG_Update (InstanceGroups m ! i) = None \<longrightarrow>
            InstanceGroups m' ! i = (InstanceGroups m ! i)\<lparr>IG_Update := Update m\<rparr>) \<and>
         (\<forall>u. IG_Update (InstanceGroups m ! i) = Some u \<longrightarrow>
            (\<exists>u'. InstanceGroups m' ! i = (InstanceGroups m ! i)\<lparr>IG_Update := Some u'\<rparr> \<and>
               (CanaryWatchTime u \<noteq> '''' \<longrightarrow> CanaryWatchTime u' = CanaryWatchTime u) \<and>
               (CanaryWatchTime u = '''' \<longrightarrow>
                  (\<exists>gu. Update m = Some gu \<and> CanaryWatchTime u' = CanaryWatchTime gu)) \<and>
               (UpdateWatchTime u \<noteq> '''' \<longrightarrow> UpdateWatchTime u' = UpdateWatchTime u) \<and>
               (UpdateWatchTime u = '''' \<longrightarrow>
                  (\<exists>gu. Update m = Some gu \<and> UpdateWatchTime u' = UpdateWatchTime gu)) \<and>
               (Serial u \<noteq> None \<longrightarrow> Serial u' = Serial u) \<and>
               (Serial u = None \<longrightarrow>
                  (\<exists>gu. Update m = Some gu \<and> Serial u' = Serial gu))))))"
proof (intro conjI impI)
  assume "Update m \<noteq> None"
  then obtain gu where "Update m = Some gu" by auto
  with propagateToIGs_global [of gu "InstanceGroups m"]
  show "\<exists>r. PropagateGlobalUpdateBlockToIGs m = Inr r"
    by (auto simp: PropagateGlobalUpdateBlockToIGs_def)
next
  assume a: "PropagateGlobalUpdateBlockToIGs m = Inr m'"
  then have "\<exists>igs'. propagateToIGs (Update m) (InstanceGroups m) = Inr igs' \<and>
      m' = m\<lparr>InstanceGroups := igs'\<rparr>"
    by (simp add: PropagateGlobalUpdateBlockToIGs_def split: sum.splits)
  then obtain igs' where
    l: "propagateToIGs (Update m) (InstanceGroups m) = Inr igs'" and
    r: "m' = m\<lparr>InstanceGroups := igs'\<rparr>"
    by (elim exE conjE)
  from r have r': "InstanceGroups m' = igs'" by simp
  from r show "m' = m\<lparr>InstanceGroups := InstanceGroups m'\<rparr>" by simp
  note n = propagateToIGs_nth [OF l]
  from n r' show "length (InstanceGroups m') = length (InstanceGroups m)" by simp
  show "\<forall>i < length (InstanceGroups m).
         (IG_Update (InstanceGroups m ! i) = None \<longrightarrow>
            InstanceGroups m' ! i = (InstanceGroups m ! i)\<lparr>IG_Update := Update m\<rparr>) \<and>
         (\<forall>u. IG_Update (InstanceGroups m ! i) = Some u \<longrightarrow>
            (\<exists>u'. InstanceGroups m' ! i = (InstanceGroups m ! i)\<lparr>IG_Update := Some u'\<rparr> \<and>
               (CanaryWatchTime u \<noteq> '''' \<longrightarrow> CanaryWatchTime u' = CanaryWatchTime u) \<and>
               (CanaryWatchTime u = '''' \<longrightarrow>
                  (\<exists>gu. Update m = Some gu \<and> CanaryWatchTime u' = CanaryWatchTime gu)) \<and>
               (UpdateWatchTime u \<noteq> '''' \<longrightarrow> UpdateWatchTime u' = UpdateWatchTime u) \<and>
               (UpdateWatchTime u = '''' \<longrightarrow>
                  (\<exists>gu. Update m = Some gu \<and> UpdateWatchTime u' = UpdateWatchTime gu)) \<and>
               (Serial u \<noteq> None \<longrightarrow> Serial u' = Serial u) \<and>
               (Serial u = None \<longrightarrow>
                  (\<exists>gu. Update m = Some gu \<and> Serial u' = Serial gu))))"
  proof (intro allI impI conjI)
    fix i
    assume i: "i < length (InstanceGroups m)"
      and none: "IG_Update (InstanceGroups m ! i) = None"
    from i n have s: "propagateToIG (Update m) (InstanceGroups m ! i) = Inr (igs' ! i)" by simp
    from propagateToIG_nil [OF none, of "Update m"] s
    show "InstanceGroups m' ! i = (InstanceGroups m ! i)\<lparr>IG_Update := Update m\<rparr>"
      unfolding r' by simp
  next
    fix i u
    assume i: "i < length (InstanceGroups m)"
      and some: "IG_Update (InstanceGroups m ! i) = Some u"
    from i n have s: "propagateToIG (Update m) (InstanceGroups m ! i) = Inr (igs' ! i)" by simp
    from propagateToIG_partial [OF some s]
    show "\<exists>u'. InstanceGroups m' ! i = (InstanceGroups m ! i)\<lparr>IG_Update := Some u'\<rparr> \<and>
               (CanaryWatchTime u \<noteq> '''' \<longrightarrow> CanaryWatchTime u' = CanaryWatchTime u) \<and>
               (CanaryWatchTime u = '''' \<longrightarrow>
                  (\<exists>gu. Update m = Some gu \<and> CanaryWatchTime u' = CanaryWatchTime gu)) \<and>
               (UpdateWatchTime u \<noteq> '''' \<longrightarrow> UpdateWatchTime u' = UpdateWatchTime u) \<and>
               (UpdateWatchTime u = '''' \<longrightarrow>
                  (\<exists>gu. Update m = Some gu \<and> UpdateWatchTime u' = UpdateWatchTime gu)) \<and>
               (Serial u \<noteq> None \<longrightarrow> Serial u' = Serial u) \<and>
               (Serial u = None \<longrightarrow>
                  (\<exists>gu. Update m = Some gu \<and> Serial u' = Serial gu))"
      unfolding r' .
  qed
qed

text \<open>
  The instance group "nats" has no update block and "api" sets only its serial flag:
  "nats" gets the global block, "api" keeps its serial flag and inherits both watch times.
\<close>

theorem propagate_field_level_merge_witness:
  "Update (exampleManifest (Some exampleGlobalUpdate)
       [exampleIG ''nats'' None, exampleIG ''api'' (Some exampleSerialOnly)]) \<noteq> None \<and>
   PropagateGlobalUpdateBlockToIGs
     (exampleManifest (Some exampleGlobalUpdate)
       [exampleIG ''nats'' None, exampleIG ''api'' (Some exampleSerialOnly)]) =
   Inr (exampleManifest (Some exampleGlobalUpdate)
       [exampleIG ''nats'' (Some exampleGlobalUpdate),
        exampleIG ''api'' (Some (exampleGlobalUpdate\<lparr>Serial := Some False\<rparr>))]) \<and>
   length (InstanceGroups (exampleManifest (Some exampleGlobalUpdate)
       [exampleIG ''nats'' (Some exampleGlobalUpdate),
        exampleIG ''api'' (Some (exampleGlobalUpdate\<lparr>Serial := Some False\<rparr>))])) = 2"
proof -
  let ?m = "exampleManifest (Some exampleGlobalUpdate)
       [exampleIG ''nats'' None, exampleIG ''api'' (Some exampleSerialOnly)]"
  let ?m' = "exampleManifest (Some exampleGlobalUpdate)
       [exampleIG ''nats'' (Some exampleGlobalUpdate),
        exampleIG ''api'' (Some (exampleGlobalUpdate\<lparr>Serial := Some False\<rparr>))]"
  have g: "Update ?m \<noteq> None" by (simp add: exampleManifest_def)
  have e: "PropagateGlobalUpdateBlockToIGs ?m = Inr ?m'"
    by (simp add: PropagateGlobalUpdateBlockToIGs_def propagateToIG_def fillCanaryWatchTime_def
        fillUpdateWatchTime_def fillSerial_def exampleManifest_def exampleIG_def
        exampleGlobalUpdate_def exampleSerialOnly_def)
  have l: "length (InstanceGroups ?m) = 2" by (simp add: exampleManifest_def)
  from propagate_field_level_merge [of ?m ?m'] e
  have "length (InstanceGroups ?m') = length (InstanceGroups ?m)" by simp
  with l have "length (InstanceGroups ?m') = 2" by simp
  with g e show ?thesis by simp
qed








section \<open>Addon application\<close>



lemma applyAddonToIG_length:
  "applyAddonToIG pm addon i m = (m', e) \<Longrightarrow> length (InstanceGroups m') = length (InstanceGroups m)"
  by (auto simp: applyAddonToIG_def Let_def split: sum.splits if_splits)

lemma applyAddonToIGs_length:
  "applyAddonToIGs pm addon is m = (m', e) \<Longrightarrow> length (InstanceGroups m') = length (InstanceGroups m)"
proof (induction "is" arbitrary: m)
  case Nil
  then show ?case by simp
next
  case (Cons i rest)
  obtain m1 e1 where s: "applyAddonToIG pm addon i m = (m1, e1)"
    by (cases "applyAddonToIG pm addon i m")
  note l = applyAddonToIG_length [OF s]
  show ?case
  proof (cases e1)
    case None
    with Cons.prems s have "applyAddonToIGs pm addon rest m1 = (m', e)" by simp
    from Cons.IH [OF this] l show ?thesis by simp
  next
    case (Some err)
    with Cons.prems s l show ?thesis by simp
  qed
qed

text \<open>
  Claim C3. \<^verbatim>\<open>ApplyAddons\<close> is idempotent through the \<^verbatim>\<open>AddOnsApplied\<close> guard. A
  call that returns nil leaves \<^verbatim>\<open>AddOnsApplied\<close> set, and a second call on the
  manifest it left (with any placement matcher) returns nil and the same manifest: no
  job list changes.
\<close>

theorem ApplyAddons_idempotent:
  "ApplyAddons pm m = (m', None) \<longrightarrow>
     AddOnsApplied m' \<and> ApplyAddons pm' m' = (m', None) \<and>
     map IG_Jobs (InstanceGroups (fst (ApplyAddons pm' m'))) = map IG_Jobs (InstanceGroups m')"
proof
  assume a: "ApplyAddons pm m = (m', None)"
  have applied: "AddOnsApplied m'"
  proof (cases "AddOnsApplied m")
    case True
    with a show ?thesis by (simp add: ApplyAddons_def)
  next
    case False
    with a show ?thesis
      by (auto simp: ApplyAddons_def split: prod.splits option.splits)
  qed
  then have "ApplyAddons pm' m' = (m', None)" by (simp add: ApplyAddons_def)
  with applied show "AddOnsApplied m' \<and> ApplyAddons pm' m' = (m', None) \<and>
     map IG_Jobs (InstanceGroups (fst (ApplyAddons pm' m'))) = map IG_Jobs (InstanceGroups m')"
    by simp
qed

lemma example_ApplyAddons:
  "ApplyAddons examplePlacementMatch (exampleAddonManifest ''logging'') =
     ((exampleAddonManifest ''logging'')
        \<lparr>InstanceGroups := [(exampleIG ''web'' None)\<lparr>IG_Jobs := [addedJob exampleAddonJob]\<rparr>],
         AddOnsApplied := True\<rparr>, None)"
  by (simp add: ApplyAddons_def applyAddonToIG_def examplePlacementMatch_def
      exampleAddonManifest_def exampleManifest_def exampleIG_def exampleAddon_def
      BoshDNSAddOnName_def)

text \<open>
  The addon "logging" with nil rules is injected into the instance group "web"; the second
  call returns the manifest of the first.
\<close>

theorem ApplyAddons_idempotent_witness:
  "ApplyAddons examplePlacementMatch (exampleAddonManifest ''logging'') =
     ((exampleAddonManifest ''logging'')
        \<lparr>InstanceGroups := [(exampleIG ''web'' None)\<lparr>IG_Jobs := [addedJob exampleAddonJob]\<rparr>],
         AddOnsApplied := True\<rparr>, None) \<and>
   ApplyAddons examplePlacementMatch
     ((exampleAddonManifest ''logging'')
        \<lparr>InstanceGroups := [(exampleIG ''web'' None)\<lparr>IG_Jobs := [addedJob exampleAddonJob]\<rparr>],
         AddOnsApplied := True\<rparr>) =
     ((exampleAddonManifest ''logging'')
        \<lparr>InstanceGroups := [(exampleIG ''web'' None)\<lparr>IG_Jobs := [addedJob exampleAddonJob]\<rparr>],
         AddOnsApplied := True\<rparr>, None)"
proof -
  note e = example_ApplyAddons
  from ApplyAddons_idempotent [of examplePlacementMatch "exampleAddonManifest ''logging''" _
      examplePlacementMatch] e
  have "ApplyAddons examplePlacementMatch
     ((exampleAddonManifest ''logging'')
        \<lparr>InstanceGroups := [(exampleIG ''web'' None)\<lparr>IG_Jobs := [addedJob exampleAddonJob]\<rparr>],
         AddOnsApplied := True\<rparr>) =
     ((exampleAddonManifest ''logging'')
        \<lparr>InstanceGroups := [(exampleIG ''web'' None)\<lparr>IG_Jobs := [addedJob exampleAddonJob]\<rparr>],
         AddOnsApplied := True\<rparr>, None)"
    by simp
  with e show ?thesis by (intro conjI)
qed

text \<open>
  Every addon but the one named "bosh-dns" has the body of the loop run for every instance
  group, in order: \<open>applyAddonsLoop\<close> is the sequence of the \<open>applyAddonToIG\<close> steps
  below, stopped at the first error.
\<close>

lemma applyAddonsLoop_skips_bosh_dns:
  "AddOn_Name addon = BoshDNSAddOnName \<Longrightarrow>
     applyAddonsLoop pm (addon # rest) m = applyAddonsLoop pm rest m"
  by simp

lemma applyAddonsLoop_runs_addon:
  "AddOn_Name addon \<noteq> BoshDNSAddOnName \<Longrightarrow>
     applyAddonToIGs pm addon [0..<length (InstanceGroups m)] m = (m', None) \<Longrightarrow>
     applyAddonsLoop pm (addon # rest) m = applyAddonsLoop pm rest m'"
  by simp




section \<open>Duplicate-value anchoring\<close>

text \<open>
  In a tree of ordered mappings and sequences whose mapping items hold no string longer
  than 64 bytes, the walk changes nothing and records no hash: the Struct branch applies
  the threshold.
\<close>

lemma mark_short_unchanged:
  fixes es cur :: "(yaml \<times> yaml) list"
  shows "shortMapSliceTree t \<longrightarrow> markDuplicateValues h t d = Inr (t, d)"
    and "list_all shortMapSliceTree xs \<longrightarrow> markElements h xs d = Inr (xs, d)"
    and "length (fst (es, cur)) = length es"
  by (induction h t d and h xs d and h es cur d
      rule: markDuplicateValues_markElements_markMapKeys.induct)
     (auto split: yaml.splits)

text \<open>
  In a tree without Go maps, whatever its strings, every hash the walk adds to the table
  is the hash of a string longer than 64 bytes.
\<close>

lemma mark_slice_result:
  "markDuplicateValues h (YSlice xs) d = Inr (t', d') \<Longrightarrow>
     \<exists>xs'. markElements h xs d = Inr (xs', d')"
  by (simp split: sum.splits prod.splits)

lemma mark_item_string_result:
  "markDuplicateValues h (YMapItem k (YStr s)) d = Inr (t', d') \<Longrightarrow>
     d' = d \<or> (64 < length s \<and> fst ` set d' = insert (h s) (fst ` set d))"
  by (auto simp: Let_def split: if_splits option.splits yaml.splits)

lemma mark_item_other_result:
  "(\<forall>s. v \<noteq> YStr s) \<Longrightarrow> markDuplicateValues h (YMapItem k v) d = Inr (t', d') \<Longrightarrow>
     \<exists>v'. markDuplicateValues h v d = Inr (v', d')"
  by (cases v) (simp_all split: sum.splits prod.splits)

lemma mark_elements_result:
  "markElements h (x # xs) d = Inr (r, d') \<Longrightarrow>
     \<exists>x' d1 xs'. markDuplicateValues h x d = Inr (x', d1) \<and> markElements h xs d1 = Inr (xs', d')"
  by (simp split: sum.splits prod.splits)

lemma mark_records_long_strings_only:
  fixes es cur :: "(yaml \<times> yaml) list"
  shows "mapSliceTree t \<longrightarrow>
           (\<forall>t' d'. markDuplicateValues h t d = Inr (t', d') \<longrightarrow>
              fst ` set d' \<subseteq> fst ` set d \<union> h ` {s. 64 < length s})"
    and "list_all mapSliceTree xs \<longrightarrow>
           (\<forall>xs' d'. markElements h xs d = Inr (xs', d') \<longrightarrow>
              fst ` set d' \<subseteq> fst ` set d \<union> h ` {s. 64 < length s})"
    and "length (fst (es, cur)) = length es"
proof (induction h t d and h xs d and h es cur d
    rule: markDuplicateValues_markElements_markMapKeys.induct)
  case (1 sha1hex xs dups)
  show ?case
  proof (intro impI allI)
    fix t' d'
    assume a: "mapSliceTree (YSlice xs)"
      and r: "markDuplicateValues sha1hex (YSlice xs) dups = Inr (t', d')"
    from mark_slice_result [OF r] obtain xs' where "markElements sha1hex xs dups = Inr (xs', d')"
      by blast
    with a "1.IH" show "fst ` set d' \<subseteq> fst ` set dups \<union> sha1hex ` {s. 64 < length s}"
      by simp
  qed
next
  case (2 sha1hex k v dups)
  show ?case
  proof (intro impI allI)
    fix t' d'
    assume a: "mapSliceTree (YMapItem k v)"
      and r: "markDuplicateValues sha1hex (YMapItem k v) dups = Inr (t', d')"
    show "fst ` set d' \<subseteq> fst ` set dups \<union> sha1hex ` {s. 64 < length s}"
    proof (cases "\<exists>s. v = YStr s")
      case True
      then obtain s where v: "v = YStr s" by blast
      from mark_item_string_result [OF r [unfolded v]] show ?thesis by blast
    next
      case False
      then have nv: "\<forall>s. v \<noteq> YStr s" by simp
      from mark_item_other_result [OF nv r] obtain v' where
        s: "markDuplicateValues sha1hex v dups = Inr (v', d')" by blast
      from a have m: "mapSliceTree v" by simp
      from nv have ih: "mapSliceTree v \<longrightarrow>
           (\<forall>t' d'. markDuplicateValues sha1hex v dups = Inr (t', d') \<longrightarrow>
              fst ` set d' \<subseteq> fst ` set dups \<union> sha1hex ` {s. 64 < length s})"
        by (cases v) (simp_all add: "2.IH")
      from ih m s show ?thesis by blast
    qed
  qed
next
  case (9 sha1hex x xs dups)
  show ?case
  proof (intro impI allI)
    fix xs' d'
    assume a: "list_all mapSliceTree (x # xs)"
      and r: "markElements sha1hex (x # xs) dups = Inr (xs', d')"
    from mark_elements_result [OF r] obtain x' d1 ys where
      s1: "markDuplicateValues sha1hex x dups = Inr (x', d1)" and
      s2: "markElements sha1hex xs d1 = Inr (ys, d')"
      by blast
    from a "9.IH"(1) s1 have i1: "fst ` set d1 \<subseteq> fst ` set dups \<union> sha1hex ` {s. 64 < length s}"
      by simp
    from a "9.IH"(2) [OF s1 refl] s2
    have i2: "fst ` set d' \<subseteq> fst ` set d1 \<union> sha1hex ` {s. 64 < length s}"
      by simp
    from i1 i2 show "fst ` set d' \<subseteq> fst ` set dups \<union> sha1hex ` {s. 64 < length s}"
      by blast
  qed
qed simp_all


text \<open>
  The walk on the example tree, for a hash function with the two digests: both strings
  get a marker key and the table is the two example entries, the entry of the b string
  first. Then the two orders of the range over the table.
\<close>

lemma example_tree_marking:
  assumes "sha1hex (replicate 65 (CHR ''a'')) = exampleHashA"
    and "sha1hex (replicate 65 (CHR ''b'')) = exampleHashB"
  shows "markDuplicateValues sha1hex exampleTree [] =
     Inr (exampleMarkedTree, [(exampleHashB, exampleEntryB), (exampleHashA, exampleEntryA)])"
proof -
  have ne: "exampleHashA \<noteq> exampleHashB"
    by (simp add: exampleHashA_def exampleHashB_def)
  have l: "length (replicate 65 (CHR ''a'')) > 64" "length (replicate 65 (CHR ''b'')) > 64"
    "replicate 65 (CHR ''a'') \<noteq> []" "replicate 65 (CHR ''b'') \<noteq> []"
    by simp_all
  show ?thesis
    unfolding exampleTree_def exampleMarkedTree_def
    using assms ne l
    by (simp add: Let_def exampleEntryA_def exampleEntryB_def)
qed

lemma exampleSha1_digests:
  "exampleSha1 (replicate 65 (CHR ''a'')) = exampleHashA"
  "exampleSha1 (replicate 65 (CHR ''b'')) = exampleHashB"
  by (simp_all add: exampleSha1_def)

lemma Marshal_exampleCodec:
  "Marshal (exampleCodec order) examplePropertiesManifest =
     Inr (removeAllQuotes
            (order [(exampleHashB, exampleEntryB), (exampleHashA, exampleEntryA)])
            exampleSecondPassText)"
  using example_tree_marking [OF exampleSha1_digests]
  by (simp add: Marshal_def exampleCodec_def)

lemma range_order_B_then_A:
  "removeAllQuotes [exampleEntryB, exampleEntryA] exampleSecondPassText =
     ''director_uuid: '' @ [CHR 0x22, CHR 0x22, CHR 0x0A] @
     ''properties:'' @ [CHR 0x0A] @
     ''  x*'' @ exampleHashA @ '': &'' @ exampleHashB @ '' '' @ replicate 65 (CHR ''b'') @ [CHR 0x0A] @
     ''  y: &'' @ exampleHashA @ '' '' @ replicate 65 (CHR ''a'') @ [CHR 0x0A]"
  by code_simp

lemma range_order_A_then_B:
  "removeAllQuotes [exampleEntryA, exampleEntryB] exampleSecondPassText =
     ''director_uuid: '' @ [CHR 0x22, CHR 0x22, CHR 0x0A] @
     ''properties:'' @ [CHR 0x0A] @
     ''  x*'' @ exampleHashA @ ''='' @ exampleHashB @ '': '' @ replicate 65 (CHR ''b'') @ [CHR 0x0A] @
     ''  y: &'' @ exampleHashA @ '' '' @ replicate 65 (CHR ''a'') @ [CHR 0x0A]"
  by code_simp

lemma go_map_order_ca_first:
  "markDuplicateValues sha1hex
     (YMap [(YStr ''ca'', YStr ''secret''), (YStr ''cert'', YStr ''secret'')]) [] =
   Inr (YMap [(YStr ''cert'', YStr (''*'' @ sha1hex ''secret'')),
              (YStr (''ca='' @ sha1hex ''secret''), YStr ''secret'')],
        [(sha1hex ''secret'', \<lparr>Hash = sha1hex ''secret'', YamlKeyMarker = ''ca''\<rparr>)])"
  by (simp add: Let_def)

lemma go_map_order_cert_first:
  "markDuplicateValues sha1hex
     (YMap [(YStr ''cert'', YStr ''secret''), (YStr ''ca'', YStr ''secret'')]) [] =
   Inr (YMap [(YStr ''ca'', YStr (''*'' @ sha1hex ''secret'')),
              (YStr (''cert='' @ sha1hex ''secret''), YStr ''secret'')],
        [(sha1hex ''secret'', \<lparr>Hash = sha1hex ''secret'', YamlKeyMarker = ''cert''\<rparr>)])"
  by (simp add: Let_def)

text \<open>
  Claim C6 (the code departs from it). The bytes \<^verbatim>\<open>Marshal\<close> returns, and so the digest
  of \<^verbatim>\<open>SHA1\<close>, depend on the order in which the Go run time iterates over a map, in two
  places.
  \<^item> \<^verbatim>\<open>Marshal\<close> ranges over the table \<^verbatim>\<open>duplicateValues\<close> to rewrite the markers. For
    the example manifest, whose first property key quotes the digest of the second
    property, two environments that differ in the order of this range only return two
    different texts: rewriting the entry of the a string first unquotes the digest inside
    the other key, whose marker is then no longer found and stays in the key.
  \<^item> The Map branch of \<^verbatim>\<open>markDuplicateValues\<close> ranges over \<^verbatim>\<open>value.MapKeys()\<close>: of
    two entries of a Go map with the same string, the one visited first gets the marker
    key and the other the alias. Visiting "ca" before "cert" and "cert" before "ca" leave
    two different maps, for every hash function.
\<close>

theorem marshal_depends_on_map_iteration_order:
  "Marshal (exampleCodec (map snd)) examplePropertiesManifest =
     Inr (''director_uuid: '' @ [CHR 0x22, CHR 0x22, CHR 0x0A] @
          ''properties:'' @ [CHR 0x0A] @
          ''  x*'' @ exampleHashA @ '': &'' @ exampleHashB @ '' '' @ replicate 65 (CHR ''b'') @ [CHR 0x0A] @
          ''  y: &'' @ exampleHashA @ '' '' @ replicate 65 (CHR ''a'') @ [CHR 0x0A]) \<and>
   Marshal (exampleCodec (rev \<circ> map snd)) examplePropertiesManifest =
     Inr (''director_uuid: '' @ [CHR 0x22, CHR 0x22, CHR 0x0A] @
          ''properties:'' @ [CHR 0x0A] @
          ''  x*'' @ exampleHashA @ ''='' @ exampleHashB @ '': '' @ replicate 65 (CHR ''b'') @ [CHR 0x0A] @
          ''  y: &'' @ exampleHashA @ '' '' @ replicate 65 (CHR ''a'') @ [CHR 0x0A]) \<and>
   Marshal (exampleCodec (map snd)) examplePropertiesManifest \<noteq>
     Marshal (exampleCodec (rev \<circ> map snd)) examplePropertiesManifest \<and>
   markDuplicateValues sha1hex
     (YMap [(YStr ''ca'', YStr ''secret''), (YStr ''cert'', YStr ''secret'')]) [] =
   Inr (YMap [(YStr ''cert'', YStr (''*'' @ sha1hex ''secret'')),
              (YStr (''ca='' @ sha1hex ''secret''), YStr ''secret'')],
        [(sha1hex ''secret'', \<lparr>Hash = sha1hex ''secret'', YamlKeyMarker = ''ca''\<rparr>)]) \<and>
   markDuplicateValues sha1hex
     (YMap [(YStr ''cert'', YStr ''secret''), (YStr ''ca'', YStr ''secret'')]) [] =
   Inr (YMap [(YStr ''ca'', YStr (''*'' @ sha1hex ''secret'')),
              (YStr (''cert='' @ sha1hex ''secret''), YStr ''secret'')],
        [(sha1hex ''secret'', \<lparr>Hash = sha1hex ''secret'', YamlKeyMarker = ''cert''\<rparr>)])"
proof -
  have ba: "Marshal (exampleCodec (map snd)) examplePropertiesManifest =
      Inr (removeAllQuotes [exampleEntryB, exampleEntryA] exampleSecondPassText)"
    by (simp add: Marshal_exampleCodec)
  have ab: "Marshal (exampleCodec (rev \<circ> map snd)) examplePropertiesManifest =
      Inr (removeAllQuotes [exampleEntryA, exampleEntryB] exampleSecondPassText)"
    by (simp add: Marshal_exampleCodec)
  have ne: "removeAllQuotes [exampleEntryB, exampleEntryA] exampleSecondPassText \<noteq>
      removeAllQuotes [exampleEntryA, exampleEntryB] exampleSecondPassText"
    unfolding range_order_A_then_B range_order_B_then_A exampleHashA_def exampleHashB_def
    by simp
  from ne have d: "Marshal (exampleCodec (map snd)) examplePropertiesManifest \<noteq>
     Marshal (exampleCodec (rev \<circ> map snd)) examplePropertiesManifest"
    unfolding ba ab by simp
  show ?thesis
    by (intro conjI d go_map_order_ca_first go_map_order_cert_first
        ba [unfolded range_order_B_then_A] ab [unfolded range_order_A_then_B])
qed

text \<open>
  A short string that reads as an alias marker is left alone by the walk, and the second
  occurrence of a long string is replaced by that very marker: the two trees are marked
  alike, table included.
\<close>

lemma mark_lookalike:
  assumes "64 < length s" and "length (h s) = 40"
  shows "markDuplicateValues h (propertiesTree [(''a'', YStr s), (''b'', YStr (''*'' @ h s))]) [] =
     Inr (propertiesTree [(''a='' @ h s, YStr s), (''b'', YStr (''*'' @ h s))],
          [(h s, \<lparr>Hash = h s, YamlKeyMarker = ''a''\<rparr>)])"
proof -
  from assms(1) have "s \<noteq> []" by auto
  with assms show ?thesis by (simp add: propertiesTree_def Let_def)
qed

lemma mark_duplicate:
  assumes "64 < length s"
  shows "markDuplicateValues h (propertiesTree [(''a'', YStr s), (''b'', YStr s)]) [] =
     Inr (propertiesTree [(''a='' @ h s, YStr s), (''b'', YStr (''*'' @ h s))],
          [(h s, \<lparr>Hash = h s, YamlKeyMarker = ''a''\<rparr>)])"
proof -
  from assms have "s \<noteq> []" by auto
  with assms show ?thesis by (simp add: propertiesTree_def Let_def)
qed

text \<open>
  Claim C5 (the code departs from it). The first manifest has no duplicate long string,
  yet \<^verbatim>\<open>Marshal\<close> returns for it the very bytes it returns for the second, whatever
  the YAML libraries print for the marked tree and whatever the order of the range over
  the table: the hypotheses only say which trees the first pass yields. So
  \<^verbatim>\<open>LoadYAML\<close> cannot return both manifests, and the round trip fails for one of
  them: for the first, when the alias resolves to the anchored string as it is meant to.
\<close>

theorem alias_marker_collision:
  "64 < length s \<and> length (sha1Hex ext s) = 40 \<and>
   yamlMarshal ext m1 = Inr d1 \<and>
   goyamlUnmarshal ext d1 =
     Inr (propertiesTree [(''a'', YStr s), (''b'', YStr (''*'' @ sha1Hex ext s))]) \<and>
   yamlMarshal ext m2 = Inr d2 \<and>
   goyamlUnmarshal ext d2 = Inr (propertiesTree [(''a'', YStr s), (''b'', YStr s)]) \<and>
   m1 \<noteq> m2 \<longrightarrow>
   Marshal ext m1 = Marshal ext m2 \<and> \<not> (roundTrips ext m1 \<and> roundTrips ext m2)"
proof
  assume a: "64 < length s \<and> length (sha1Hex ext s) = 40 \<and>
   yamlMarshal ext m1 = Inr d1 \<and>
   goyamlUnmarshal ext d1 =
     Inr (propertiesTree [(''a'', YStr s), (''b'', YStr (''*'' @ sha1Hex ext s))]) \<and>
   yamlMarshal ext m2 = Inr d2 \<and>
   goyamlUnmarshal ext d2 = Inr (propertiesTree [(''a'', YStr s), (''b'', YStr s)]) \<and>
   m1 \<noteq> m2"
  then have l: "64 < length s" and h: "length (sha1Hex ext s) = 40" by simp_all
  from a mark_lookalike [of s "sha1Hex ext", OF l h] mark_duplicate [OF l, of "sha1Hex ext"]
  have e: "Marshal ext m1 = Marshal ext m2"
    by (simp add: Marshal_def)
  have "\<not> (roundTrips ext m1 \<and> roundTrips ext m2)"
  proof
    assume r: "roundTrips ext m1 \<and> roundTrips ext m2"
    then obtain bytes where b: "Marshal ext m1 = Inr bytes"
      by (cases "Marshal ext m1") (simp_all add: roundTrips_def)
    from e b have b2: "Marshal ext m2 = Inr bytes" by simp
    from r b have "LoadYAML ext bytes = Inr m1" by (simp add: roundTrips_def)
    moreover from r b2 have "LoadYAML ext bytes = Inr m2" by (simp add: roundTrips_def)
    ultimately have "Inr m1 = (Inr m2 :: error + manifest)" by simp
    then have "m1 = m2" by simp
    with a show False by simp
  qed
  with e show "Marshal ext m1 = Marshal ext m2 \<and> \<not> (roundTrips ext m1 \<and> roundTrips ext m2)"
    by (intro conjI)
qed

lemma exampleSha1_long: "exampleSha1 exampleLongString = exampleHashA"
  by (simp add: exampleSha1_def exampleLongString_def)

lemma example_anchored:
  "removeAllQuotes [\<lparr>Hash = exampleHashA, YamlKeyMarker = ''a''\<rparr>] exampleQuotedAliasText =
     exampleAnchoredText"
  by code_simp

lemma example_manifests_differ: "exampleLookalike \<noteq> exampleDuplicate"
proof -
  have "length (''*'' @ exampleHashA) = 41" by (simp add: exampleHashA_def)
  moreover have "length exampleLongString = 65" by (simp add: exampleLongString_def)
  ultimately have "length (''*'' @ exampleHashA) \<noteq> length exampleLongString" by simp
  then have "''*'' @ exampleHashA \<noteq> exampleLongString" by (rule contrapos_nn) simp
  then show ?thesis
    by (simp add: exampleLookalike_def exampleDuplicate_def examplePropertyManifest_def
        exampleManifest_def)
qed

lemma Marshal_exampleDuplicate:
  "Marshal exampleAnchoringCodec exampleDuplicate = Inr exampleAnchoredText"
proof -
  have l: "64 < length exampleLongString" by (simp add: exampleLongString_def)
  have y: "yamlMarshal exampleAnchoringCodec exampleDuplicate = Inr ''duplicate''"
    using example_manifests_differ by (simp add: exampleAnchoringCodec_def)
  have g: "goyamlUnmarshal exampleAnchoringCodec ''duplicate'' =
      Inr (propertiesTree [(''a'', YStr exampleLongString), (''b'', YStr exampleLongString)])"
    by (simp add: exampleAnchoringCodec_def)
  have s: "sha1Hex exampleAnchoringCodec = exampleSha1"
    by (simp add: exampleAnchoringCodec_def)
  have md: "markDuplicateValues exampleSha1
       (propertiesTree [(''a'', YStr exampleLongString), (''b'', YStr exampleLongString)]) [] =
     Inr (exampleAnchorMarkedTree, [(exampleHashA, \<lparr>Hash = exampleHashA, YamlKeyMarker = ''a''\<rparr>)])"
    using mark_duplicate [OF l, of exampleSha1]
    by (simp only: exampleSha1_long exampleAnchorMarkedTree_def)
  have p: "goyamlMarshal exampleAnchoringCodec exampleAnchorMarkedTree = Inr exampleQuotedAliasText"
    by (simp add: exampleAnchoringCodec_def)
  have r: "rangeOrder exampleAnchoringCodec
       [(exampleHashA, \<lparr>Hash = exampleHashA, YamlKeyMarker = ''a''\<rparr>)] =
     [\<lparr>Hash = exampleHashA, YamlKeyMarker = ''a''\<rparr>]"
    by (simp add: exampleAnchoringCodec_def)
  show ?thesis
    by (simp only: Marshal_def y g s md p r sum.case prod.case example_anchored)
qed

text \<open>
  With the digest of 65 times the letter a: both manifests are serialized to the anchored
  text, which loads as the manifest with the duplicate.
\<close>

theorem alias_marker_collision_witness:
  "Marshal exampleAnchoringCodec exampleLookalike = Inr exampleAnchoredText \<and>
   Marshal exampleAnchoringCodec exampleDuplicate = Inr exampleAnchoredText \<and>
   LoadYAML exampleAnchoringCodec exampleAnchoredText = Inr exampleDuplicate \<and>
   roundTrips exampleAnchoringCodec exampleDuplicate \<and>
   \<not> roundTrips exampleAnchoringCodec exampleLookalike"
proof -
  let ?ext = exampleAnchoringCodec
  have l: "64 < length exampleLongString" by (simp add: exampleLongString_def)
  have h: "length (sha1Hex ?ext exampleLongString) = 40"
    by (simp add: exampleAnchoringCodec_def exampleSha1_long exampleHashA_def)
  have y1: "yamlMarshal ?ext exampleLookalike = Inr ''lookalike''"
    by (simp add: exampleAnchoringCodec_def)
  have y2: "yamlMarshal ?ext exampleDuplicate = Inr ''duplicate''"
    using example_manifests_differ by (simp add: exampleAnchoringCodec_def)
  have g1: "goyamlUnmarshal ?ext ''lookalike'' =
      Inr (propertiesTree [(''a'', YStr exampleLongString),
                           (''b'', YStr (''*'' @ sha1Hex ?ext exampleLongString))])"
    by (simp add: exampleAnchoringCodec_def exampleSha1_long)
  have g2: "goyamlUnmarshal ?ext ''duplicate'' =
      Inr (propertiesTree [(''a'', YStr exampleLongString), (''b'', YStr exampleLongString)])"
    by (simp add: exampleAnchoringCodec_def)
  from alias_marker_collision [of exampleLongString ?ext exampleLookalike "''lookalike''"
      exampleDuplicate "''duplicate''"] l h y1 y2 g1 g2 example_manifests_differ
  have c: "Marshal ?ext exampleLookalike = Marshal ?ext exampleDuplicate"
    and n: "\<not> (roundTrips ?ext exampleLookalike \<and> roundTrips ?ext exampleDuplicate)"
    by simp_all
  note d = Marshal_exampleDuplicate
  have ld: "LoadYAML ?ext exampleAnchoredText = Inr exampleDuplicate"
    by (simp add: LoadYAML_def exampleAnchoringCodec_def)
  from d ld have rd: "roundTrips ?ext exampleDuplicate" by (simp add: roundTrips_def)
  from n rd have rl: "\<not> roundTrips ?ext exampleLookalike" by simp
  from c d ld rd rl show ?thesis by simp
qed

section \<open>Variable discovery and classification\<close>

declare findAllVars.simps [simp del]










lemma map_of_collectVariables:
  "map_of (collectVariables vs al) k =
     (if k \<in> mainName ` set vs then Some True else map_of al k)"
  by (induction vs arbitrary: al) (auto simp: update_conv')

lemma map_of_removeExplicit:
  "map_of (removeExplicit xs al) k =
     (if k \<in> Variable_Name ` set xs then Some False else map_of al k)"
  by (induction xs arbitrary: al) (auto simp: update_conv')

lemma distinct_collectVariables:
  "distinct (map fst al) \<Longrightarrow> distinct (map fst (collectVariables vs al))"
  by (induction vs arbitrary: al) (simp_all add: distinct_update)

lemma distinct_removeExplicit:
  "distinct (map fst al) \<Longrightarrow> distinct (map fst (removeExplicit xs al))"
  by (induction xs arbitrary: al) (simp_all add: distinct_update)

lemma true_keys:
  "distinct (map fst al) \<Longrightarrow> set (map fst (filter snd al)) = {k. map_of al k = Some True}"
proof (induction al)
  case Nil
  show ?case by simp
next
  case (Cons e al)
  obtain k b where e: "e = (k, b)" by (cases e)
  from Cons.prems e have nk: "k \<notin> fst ` set al" and d: "distinct (map fst al)" by auto
  from nk have "map_of al k = None" by (simp add: map_of_eq_None_iff)
  with Cons.IH [OF d] e nk show ?case by auto
qed

lemma implicit_names_set:
  "set (map fst (filter snd (removeExplicit xs (collectVariables vs [])))) =
     mainName ` set vs - Variable_Name ` set xs"
proof -
  have "distinct (map fst (removeExplicit xs (collectVariables vs [])))"
    by (simp add: distinct_removeExplicit distinct_collectVariables)
  from true_keys [OF this] show ?thesis
    by (auto simp: map_of_removeExplicit map_of_collectVariables)
qed









text \<open>
  Claim C9. Explicit and implicit variables are disjoint. The names
  \<^verbatim>\<open>ImplicitVariables\<close> returns are those of the placeholders of the serialized document
  (a dotted name without a slash cut at its first dot) less the names the manifest
  declares in \<^verbatim>\<open>Variables\<close>: no declared name is returned.
\<close>

theorem implicit_variables_exclude_declared:
  "ImplicitVariables ext m = Inr names \<longrightarrow>
     set names \<inter> Variable_Name ` set (Variables m) = {} \<and>
     (\<exists>rawManifest. Marshal ext m = Inr rawManifest \<and>
        set names =
          mainName ` set (findAllVars (unicodeLetter ext) rawManifest) -
          Variable_Name ` set (Variables m))"
proof
  assume a: "ImplicitVariables ext m = Inr names"
  then obtain raw where r: "Marshal ext m = Inr raw"
    by (cases "Marshal ext m") (simp_all add: ImplicitVariables_def)
  with a have "names = map fst (filter snd (removeExplicit (Variables m)
      (collectVariables (findAllVars (unicodeLetter ext) raw) [])))"
    by (simp add: ImplicitVariables_def Let_def)
  then have s: "set names = mainName ` set (findAllVars (unicodeLetter ext) raw) -
      Variable_Name ` set (Variables m)"
    by (simp only: implicit_names_set)
  then have "set names \<inter> Variable_Name ` set (Variables m) = {}" by blast
  with r s show "set names \<inter> Variable_Name ` set (Variables m) = {} \<and>
     (\<exists>rawManifest. Marshal ext m = Inr rawManifest \<and>
        set names =
          mainName ` set (findAllVars (unicodeLetter ext) rawManifest) -
          Variable_Name ` set (Variables m))"
    by blast
qed

lemma example_ImplicitVariables:
  "ImplicitVariables (printingExternals ''user: ((foo)) password: ((bar))'')
     (exampleVariablesManifest [\<lparr>Variable_Name = ''foo'', Variable_Type = ''password''\<rparr>]) =
   Inr [''bar'']"
  by code_simp

text \<open>
  The document holds \<^verbatim>\<open>((foo))\<close> and \<^verbatim>\<open>((bar))\<close> and the manifest declares "foo":
  only "bar" is implicit.
\<close>

theorem implicit_variables_exclude_declared_witness:
  "ImplicitVariables (printingExternals ''user: ((foo)) password: ((bar))'')
     (exampleVariablesManifest [\<lparr>Variable_Name = ''foo'', Variable_Type = ''password''\<rparr>]) =
   Inr [''bar''] \<and>
   Variable_Name ` set (Variables
     (exampleVariablesManifest [\<lparr>Variable_Name = ''foo'', Variable_Type = ''password''\<rparr>])) = {''foo''} \<and>
   set [''bar''] \<inter> Variable_Name ` set (Variables
     (exampleVariablesManifest [\<lparr>Variable_Name = ''foo'', Variable_Type = ''password''\<rparr>])) = {}"
proof -
  let ?m = "exampleVariablesManifest [\<lparr>Variable_Name = ''foo'', Variable_Type = ''password''\<rparr>]"
  note e = example_ImplicitVariables
  from implicit_variables_exclude_declared
    [of "printingExternals ''user: ((foo)) password: ((bar))''" ?m "[''bar'']"] e
  have d: "set [''bar''] \<inter> Variable_Name ` set (Variables ?m) = {}" by (elim impE conjE)
  have v: "Variable_Name ` set (Variables ?m) = {''foo''}"
    by (simp add: exampleVariablesManifest_def)
  from e v d show ?thesis by (intro conjI)
qed

end
